theory Spec2Isabelle
  imports Complex_Main
begin

section \<open>The CANAPI transport, as the session sees it\<close>

text \<open>
  Modelled from the spec: the module \<open>CANAPI\<close> (classes \<open>CANAPI\<close>, \<open>OpMode\<close>,
  \<open>Bitrate\<close>, \<open>Message\<close> and the \<open>CANERR_*\<close>/\<open>CANMODE_*\<close> constants), which
  \<open>kvaser_can.py\<close> imports from the vendor library and which is not under \<open>src/\<close>. It is
  the Transport Binding of the spec, taken as a parameter: a fake transport that records
  every invocation. Each primitive appends its call to \<open>calls\<close> and answers with a
  status (and payload) that may depend on the whole history of calls, so any sequence of
  transport results can be produced. \<open>max_len\<close> is the number of data bytes a \<open>Message\<close>
  holds.
\<close>

datatype py_error = ValueError | IndexError

text \<open>\<open>OpMode()\<close>: the byte assigned by the session and the monitor bit it may set.\<close>

record op_mode =
  byte :: int
  mon :: int

record msg_flags =
  xtd :: int
  rtr :: int
  fdf :: int
  brs :: int
  esi :: int

record message =
  msg_id :: int
  flags :: msg_flags
  dlc :: int
  msg_data :: "int list"

datatype call =
    Version
  | Init int op_mode
  | Start int
  | Reset
  | Exit
  | Write message int
  | Read int
  | Test int op_mode

record canapi =
  max_len :: nat
  on_version :: "call list \<Rightarrow> string"
  on_init :: "call list \<Rightarrow> int \<Rightarrow> op_mode \<Rightarrow> int"
  on_start :: "call list \<Rightarrow> int \<Rightarrow> int"
  on_reset :: "call list \<Rightarrow> int"
  on_exit :: "call list \<Rightarrow> int"
  on_write :: "call list \<Rightarrow> message \<Rightarrow> int \<Rightarrow> int"
  on_read :: "call list \<Rightarrow> int \<Rightarrow> int \<times> message option"
  on_test :: "call list \<Rightarrow> int \<Rightarrow> op_mode \<Rightarrow> int \<times> int"
  calls :: "call list"

text \<open>Modelled from the spec: the constants the session imports from \<open>CANAPI\<close>, whose
  values are not under \<open>src/\<close>. Success is \<open>0\<close> (the spec's "zero means success", the
  docstrings' "0 success, negative error code"), the empty receive queue is \<open>-30\<close> (the
  comment in \<open>monitor\<close>), the default operation mode is the zero byte.\<close>

definition CANERR_NOERROR :: int where
  "CANERR_NOERROR = 0"

definition CANERR_RX_EMPTY :: int where
  "CANERR_RX_EMPTY = - 30"

definition CANMODE_DEFAULT :: int where
  "CANMODE_DEFAULT = 0"

definition api_version :: "canapi \<Rightarrow> string \<times> canapi" where
  "api_version a = (on_version a (calls a), a\<lparr>calls := calls a @ [Version]\<rparr>)"

definition api_init :: "canapi \<Rightarrow> int \<Rightarrow> op_mode \<Rightarrow> int \<times> canapi" where
  "api_init a channel mode =
     (on_init a (calls a) channel mode, a\<lparr>calls := calls a @ [Init channel mode]\<rparr>)"

definition api_start :: "canapi \<Rightarrow> int \<Rightarrow> int \<times> canapi" where
  "api_start a bitrate =
     (on_start a (calls a) bitrate, a\<lparr>calls := calls a @ [Start bitrate]\<rparr>)"

definition api_reset :: "canapi \<Rightarrow> int \<times> canapi" where
  "api_reset a = (on_reset a (calls a), a\<lparr>calls := calls a @ [Reset]\<rparr>)"

definition api_exit :: "canapi \<Rightarrow> int \<times> canapi" where
  "api_exit a = (on_exit a (calls a), a\<lparr>calls := calls a @ [Exit]\<rparr>)"

definition api_write :: "canapi \<Rightarrow> message \<Rightarrow> int \<Rightarrow> int \<times> canapi" where
  "api_write a msg timeout =
     (on_write a (calls a) msg timeout, a\<lparr>calls := calls a @ [Write msg timeout]\<rparr>)"

definition api_read :: "canapi \<Rightarrow> int \<Rightarrow> (int \<times> message option) \<times> canapi" where
  "api_read a timeout =
     (on_read a (calls a) timeout, a\<lparr>calls := calls a @ [Read timeout]\<rparr>)"

definition api_test :: "canapi \<Rightarrow> int \<Rightarrow> op_mode \<Rightarrow> (int \<times> int) \<times> canapi" where
  "api_test a channel mode =
     (on_test a (calls a) channel mode, a\<lparr>calls := calls a @ [Test channel mode]\<rparr>)"

section \<open>The session: class \<open>KvaserCAN\<close>\<close>

record KvaserCAN =
  api :: canapi
  channel :: int
  is_initialized :: bool
  is_started :: bool
  version :: string

text \<open>\<open>__init__\<close>, given the transport instance \<open>CANAPI(lib_name)\<close>.\<close>

definition init :: "canapi \<Rightarrow> KvaserCAN" where
  "init a =
     (let (v, a') = api_version a
      in \<lparr>api = a', channel = - 1, is_initialized = False, is_started = False, version = v\<rparr>)"

definition close :: "KvaserCAN \<Rightarrow> int \<times> KvaserCAN" where
  "close self =
     (let result = CANERR_NOERROR;
          (result, self) =
            (if is_started self
             then (let (r, a) = api_reset (api self)
                   in (r, self\<lparr>api := a, is_started := False\<rparr>))
             else (result, self));
          (result, self) =
            (if is_initialized self
             then (let (r, a) = api_exit (api self)
                   in (r, self\<lparr>api := a, is_initialized := False, channel := - 1\<rparr>))
             else (result, self))
      in (result, self))"

definition open_can :: "KvaserCAN \<Rightarrow> int \<Rightarrow> bool \<Rightarrow> int \<times> KvaserCAN" where
  "open_can self chan monitor_mode =
     (let self = (if is_initialized self then snd (close self) else self);
          mode = \<lparr>byte = CANMODE_DEFAULT, mon = 0\<rparr>;
          mode = (if monitor_mode then mode\<lparr>mon := 1\<rparr> else mode);
          (result, a) = api_init (api self) chan mode;
          self = self\<lparr>api := a\<rparr>
      in if result = CANERR_NOERROR
         then (result, self\<lparr>channel := chan, is_initialized := True\<rparr>)
         else (result, self))"

definition start :: "KvaserCAN \<Rightarrow> int \<Rightarrow> int \<times> KvaserCAN" where
  "start self bitrate_index =
     (if \<not> is_initialized self then (- 95, self)
      else (let (result, a) = api_start (api self) bitrate_index;
                self = self\<lparr>api := a\<rparr>
            in if result = CANERR_NOERROR
               then (result, self\<lparr>is_started := True\<rparr>)
               else (result, self)))"

text \<open>\<open>bytes(data)\<close>: every element must be in \<open>range(0, 256)\<close>, else \<open>ValueError\<close>;
  a \<open>bytes\<close> argument is already such a sequence and is kept as it is.\<close>

definition py_bytes :: "int list \<Rightarrow> py_error + int list" where
  "py_bytes data = (if list_all (\<lambda>b. 0 \<le> b \<and> b < 256) data then Inr data else Inl ValueError)"

text \<open>\<open>Message()\<close>: a zeroed frame whose \<open>data\<close> array has the transport's capacity.\<close>

definition new_message :: "nat \<Rightarrow> message" where
  "new_message cap =
     \<lparr>msg_id = 0, flags = \<lparr>xtd = 0, rtr = 0, fdf = 0, brs = 0, esi = 0\<rparr>, dlc = 0,
      msg_data = replicate cap 0\<rparr>"

text \<open>\<open>for i in range(data_len): msg.data[i] = data[i]\<close>; an index outside either
  sequence raises \<open>IndexError\<close>.\<close>

fun copy_data :: "int list \<Rightarrow> int list \<Rightarrow> nat list \<Rightarrow> py_error + int list" where
  "copy_data md data [] = Inr md"
| "copy_data md data (i # rest) =
     (if i < length md \<and> i < length data then copy_data (md[i := data ! i]) data rest
      else Inl IndexError)"

definition send ::
  "KvaserCAN \<Rightarrow> int \<Rightarrow> int list \<Rightarrow> bool \<Rightarrow> bool \<Rightarrow> int \<Rightarrow> (py_error + int) \<times> KvaserCAN" where
  "send self mid data extended_id remote_frame timeout =
     (if \<not> is_started self then (Inr (- 95), self)
      else
        (let msg = (new_message (max_len (api self)))\<lparr>msg_id := mid\<rparr>
         in case py_bytes data of
              Inl e \<Rightarrow> (Inl e, self)
            | Inr data \<Rightarrow>
                (let data_len = int (length data);
                     (data_len, data) = (if data_len > 8 then (8, take 8 data) else (data_len, data))
                 in case copy_data (msg_data msg) data [0..<nat data_len] of
                      Inl e \<Rightarrow> (Inl e, self)
                    | Inr md \<Rightarrow>
                        (let msg = msg\<lparr>msg_data := md, dlc := data_len,
                                       flags := \<lparr>xtd = (if extended_id then 1 else 0),
                                                  rtr = (if remote_frame then 1 else 0),
                                                  fdf = 0, brs = 0, esi = 0\<rparr>\<rparr>;
                             (r, a) = api_write (api self) msg timeout
                         in (Inr r, self\<lparr>api := a\<rparr>)))))"

definition receive :: "KvaserCAN \<Rightarrow> int \<Rightarrow> (int \<times> message option) \<times> KvaserCAN" where
  "receive self timeout =
     (if \<not> is_started self then ((- 95, None), self)
      else (let (r, a) = api_read (api self) timeout in (r, self\<lparr>api := a\<rparr>)))"

text \<open>\<open>range(n)\<close> for a Python integer: empty when \<open>n \<le> 0\<close>.\<close>

definition py_range :: "int \<Rightarrow> int list" where
  "py_range n = map int [0..<nat n]"

fun scan_loop :: "KvaserCAN \<Rightarrow> int list \<Rightarrow> int list \<Rightarrow> int list \<times> KvaserCAN" where
  "scan_loop self available_channels [] = (available_channels, self)"
| "scan_loop self available_channels (chan # rest) =
     (let mode = \<lparr>byte = CANMODE_DEFAULT, mon = 0\<rparr>;
          ((result, state), a) = api_test (api self) chan mode
      in scan_loop (self\<lparr>api := a\<rparr>)
           (if state = 0 then available_channels @ [chan] else available_channels) rest)"

definition scan_channels :: "KvaserCAN \<Rightarrow> int \<Rightarrow> int list \<times> KvaserCAN" where
  "scan_channels self max_channels = scan_loop self [] (py_range max_channels)"

text \<open>
  \<open>monitor\<close>. The clock \<open>time_time\<close> gives the successive readings of \<open>time.time()\<close>
  (reading \<open>0\<close> is \<open>start_time\<close>), as exact numbers. The callback is a Python callable
  that may keep state of its own: its answer is a function of the frames handed to it so
  far, the last one being the argument of the present invocation. The loop need not end
  (a clock that stands still, a queue that stays empty), so not returning is \<open>None\<close>.
  The asynchronous \<open>KeyboardInterrupt\<close> is a signal from outside and is not modelled.
\<close>

partial_function (option) monitor_loop ::
  "(nat \<Rightarrow> real) \<Rightarrow> real \<Rightarrow> int \<Rightarrow> (message option list \<Rightarrow> bool) option \<Rightarrow>
   nat \<Rightarrow> int \<Rightarrow> message option list \<Rightarrow> KvaserCAN \<Rightarrow> (int \<times> KvaserCAN) option" where
  "monitor_loop time_time start_time duration callback i msg_count seen self =
     (if time_time i - start_time < real_of_int duration
      then (case api_read (api self) 100 of
              ((result, msg), a) \<Rightarrow>
                if result = CANERR_NOERROR
                then (case callback of
                        None \<Rightarrow>
                          monitor_loop time_time start_time duration callback (Suc i)
                            (msg_count + 1) (seen @ [msg]) (self\<lparr>api := a\<rparr>)
                      | Some cb \<Rightarrow>
                          if \<not> cb (seen @ [msg]) then Some (msg_count + 1, self\<lparr>api := a\<rparr>)
                          else monitor_loop time_time start_time duration callback (Suc i)
                                 (msg_count + 1) (seen @ [msg]) (self\<lparr>api := a\<rparr>))
                else if result \<noteq> CANERR_RX_EMPTY then Some (msg_count, self\<lparr>api := a\<rparr>)
                else monitor_loop time_time start_time duration callback (Suc i)
                       msg_count seen (self\<lparr>api := a\<rparr>))
      else Some (msg_count, self))"

definition monitor ::
  "(nat \<Rightarrow> real) \<Rightarrow> KvaserCAN \<Rightarrow> int \<Rightarrow> (message option list \<Rightarrow> bool) option \<Rightarrow>
   (int \<times> KvaserCAN) option" where
  "monitor time_time self duration callback =
     (if \<not> is_started self then Some (- 95, self)
      else monitor_loop time_time (time_time 0) duration callback 1 0 [] self)"

section \<open>Reachable sessions\<close>

text \<open>The sessions a caller can obtain: constructed, then driven by any sequence of
  method calls. The transport's answers are arbitrary, since the transport instance
  given to \<open>init\<close> is.\<close>

inductive reachable :: "KvaserCAN \<Rightarrow> bool" where
  reach_init: "reachable (init a)"
| reach_open: "reachable self \<Longrightarrow> reachable (snd (open_can self chan monitor_mode))"
| reach_start: "reachable self \<Longrightarrow> reachable (snd (start self bitrate_index))"
| reach_close: "reachable self \<Longrightarrow> reachable (snd (close self))"
| reach_send:
    "reachable self \<Longrightarrow> reachable (snd (send self mid data extended_id remote_frame timeout))"
| reach_receive: "reachable self \<Longrightarrow> reachable (snd (receive self timeout))"
| reach_scan: "reachable self \<Longrightarrow> reachable (snd (scan_channels self max_channels))"
| reach_monitor:
    "reachable self \<Longrightarrow> monitor time_time self duration callback = Some (n, self') \<Longrightarrow>
     reachable self'"

section \<open>Vocabulary of the properties\<close>

text \<open>The mode \<open>scan_channels\<close> probes with, and the probe calls of a scan of \<open>n\<close> channels.\<close>

definition default_mode :: op_mode where
  "default_mode = \<lparr>byte = CANMODE_DEFAULT, mon = 0\<rparr>"

definition probe_calls :: "int \<Rightarrow> call list" where
  "probe_calls n = map (\<lambda>c. Test c default_mode) (py_range n)"

text \<open>The state code the transport reports for channel \<open>c\<close> when it is probed after the
  channels below it.\<close>

definition probe_state :: "KvaserCAN \<Rightarrow> int \<Rightarrow> int" where
  "probe_state self c =
     snd (on_test (api self) (calls (api self) @ probe_calls c) c default_mode)"

text \<open>The session after \<open>k\<close> more polls of \<open>monitor\<close>, the answer of the transport to poll
  number \<open>j\<close> (counted from \<open>0\<close>), and the frames delivered by the first \<open>k\<close> polls.\<close>

definition after_polls :: "KvaserCAN \<Rightarrow> nat \<Rightarrow> KvaserCAN" where
  "after_polls self k = self\<lparr>api := (api self)\<lparr>calls := calls (api self) @ replicate k (Read 100)\<rparr>\<rparr>"

definition poll :: "KvaserCAN \<Rightarrow> nat \<Rightarrow> int \<times> message option" where
  "poll self j = on_read (api self) (calls (api self) @ replicate j (Read 100)) 100"

definition frames :: "KvaserCAN \<Rightarrow> nat \<Rightarrow> message option list" where
  "frames self k = map snd (filter (\<lambda>r. fst r = CANERR_NOERROR) (map (poll self) [0..<k]))"

text \<open>The duration has not elapsed when poll \<open>j\<close> is about to be made.\<close>

definition in_time :: "(nat \<Rightarrow> real) \<Rightarrow> int \<Rightarrow> nat \<Rightarrow> bool" where
  "in_time time_time duration j = (time_time (Suc j) - time_time 0 < real_of_int duration)"

text \<open>Poll \<open>j\<close> is made and does not end the loop: the queue was empty, or a frame came
  and the callback (if any) did not ask to stop.\<close>

definition keeps_polling ::
  "(nat \<Rightarrow> real) \<Rightarrow> int \<Rightarrow> (message option list \<Rightarrow> bool) option \<Rightarrow> KvaserCAN \<Rightarrow> nat \<Rightarrow> bool" where
  "keeps_polling time_time duration callback self j =
     (in_time time_time duration j \<and>
      (fst (poll self j) = CANERR_RX_EMPTY \<or>
       fst (poll self j) = CANERR_NOERROR \<and>
       (case callback of None \<Rightarrow> True | Some cb \<Rightarrow> cb (frames self (Suc j)))))"

text \<open>Modelled from the spec: the table of bit-rate presets, which is not under \<open>src/\<close>.
  The spec's selectors are zero and the small negative indices of the standard bit rates;
  the sources name \<open>0\<close> (1 Mbit/s), \<open>-2\<close> (500 kbit/s) and \<open>-3\<close> (250 kbit/s). The
  nine indices \<open>0\<close> (1 Mbit/s) down to \<open>-8\<close> (10 kbit/s) are taken.\<close>

definition recognized_presets :: "int set" where
  "recognized_presets = {- 8..0}"

text \<open>The three fields encode one of the states \<open>Closed\<close>, \<open>Initialized\<close>, \<open>Started\<close>.\<close>

definition consistent :: "KvaserCAN \<Rightarrow> bool" where
  "consistent self = ((is_started self \<longrightarrow> is_initialized self) \<and>
     (\<not> is_initialized self \<longrightarrow> channel self = - 1))"

section \<open>A fake transport and sessions on it\<close>

text \<open>Initialisation, start, exit and write succeed; reset fails with \<open>-1\<close>; channels
  \<open>2\<close> and \<open>5\<close> probe as available; the second and fourth read deliver a frame, the fifth
  fails with \<open>-1\<close>, every other read finds the queue empty.\<close>

definition demo_frame :: message where
  "demo_frame = (new_message 64)\<lparr>msg_id := 688, dlc := 1, msg_data := 255 # replicate 63 0\<rparr>"

definition reads_in :: "call list \<Rightarrow> nat" where
  "reads_in h = length (filter (\<lambda>c. case c of Read t \<Rightarrow> True | _ \<Rightarrow> False) h)"

definition demo_api :: canapi where
  "demo_api =
     \<lparr>max_len = 64,
      on_version = (\<lambda>h. ''demo''),
      on_init = (\<lambda>h c m. 0),
      on_start = (\<lambda>h b. 0),
      on_reset = (\<lambda>h. - 1),
      on_exit = (\<lambda>h. 0),
      on_write = (\<lambda>h m t. 0),
      on_read = (\<lambda>h t. if reads_in h = 1 \<or> reads_in h = 3 then (0, Some demo_frame)
                        else if reads_in h = 4 then (- 1, None) else (- 30, None)),
      on_test = (\<lambda>h c m. (0, if c = 2 \<or> c = 5 then 0 else - 1)),
      calls = []\<rparr>"

definition demo_closed :: KvaserCAN where
  "demo_closed = init demo_api"

definition demo_initialized :: KvaserCAN where
  "demo_initialized = snd (open_can demo_closed 0 False)"

definition demo_started :: KvaserCAN where
  "demo_started = snd (start demo_initialized (- 2))"

text \<open>A clock that advances by one second per reading, and a callback that asks to
  stop at the second frame.\<close>

definition demo_clock :: "nat \<Rightarrow> real" where
  "demo_clock i = real i"

definition stop_at_second :: "message option list \<Rightarrow> bool" where
  "stop_at_second seen = (length seen \<noteq> 2)"

section \<open>Evaluating the fixtures\<close>

lemma demo_closed_eq:
  "demo_closed =
     \<lparr>api = demo_api\<lparr>calls := [Version]\<rparr>, channel = - 1, is_initialized = False,
      is_started = False, version = ''demo''\<rparr>"
  by (simp add: demo_closed_def init_def api_version_def demo_api_def)

lemma demo_initialized_eq:
  "demo_initialized =
     \<lparr>api = demo_api\<lparr>calls := [Version, Init 0 \<lparr>byte = 0, mon = 0\<rparr>]\<rparr>, channel = 0,
      is_initialized = True, is_started = False, version = ''demo''\<rparr>"
  by (simp add: demo_initialized_def demo_closed_eq open_can_def api_init_def demo_api_def
      CANMODE_DEFAULT_def CANERR_NOERROR_def)

lemma demo_started_eq:
  "demo_started =
     \<lparr>api = demo_api\<lparr>calls := [Version, Init 0 \<lparr>byte = 0, mon = 0\<rparr>, Start (- 2)]\<rparr>,
      channel = 0, is_initialized = True, is_started = True, version = ''demo''\<rparr>"
  by (simp add: demo_started_def demo_initialized_eq start_def api_start_def demo_api_def
      CANERR_NOERROR_def)

section \<open>Fail-fast I/O before start\<close>

text \<open>
  Claim C1. On a session that is not started, \<open>send\<close> returns the bare status \<open>-95\<close> and
  \<open>receive\<close> returns \<open>(-95, None)\<close>; both leave the session, and with it the record of
  transport calls, as it was: neither \<open>api.write\<close> nor \<open>api.read\<close> is invoked.
\<close>

theorem io_before_start_fails_fast:
  "\<not> is_started self \<Longrightarrow>
     send self mid data extended_id remote_frame timeout = (Inr (- 95), self) \<and>
     receive self timeout' = ((- 95, None), self) \<and>
     calls (api (snd (send self mid data extended_id remote_frame timeout))) = calls (api self) \<and>
     calls (api (snd (receive self timeout'))) = calls (api self)"
  by (simp add: send_def receive_def)

theorem io_before_start_fails_fast_witness:
  "\<not> is_started demo_initialized \<and>
   send demo_initialized 688 [1, 2, 3] False False 0 = (Inr (- 95), demo_initialized) \<and>
   receive demo_initialized 1000 = ((- 95, None), demo_initialized) \<and>
   calls (api (snd (send demo_initialized 688 [1, 2, 3] False False 0))) =
     [Version, Init 0 \<lparr>byte = 0, mon = 0\<rparr>] \<and>
   calls (api (snd (receive demo_initialized 1000))) = [Version, Init 0 \<lparr>byte = 0, mon = 0\<rparr>]"
proof -
  have h: "\<not> is_started demo_initialized"
    by (simp add: demo_initialized_eq)
  have c: "calls (api demo_initialized) = [Version, Init 0 \<lparr>byte = 0, mon = 0\<rparr>]"
    by (simp add: demo_initialized_eq)
  show ?thesis
    using h c io_before_start_fails_fast [OF h, of 688 "[1, 2, 3]" False False 0 1000]
    by simp
qed

section \<open>Truncation of the payload\<close>

lemma copy_data_upt:
  "i \<le> n \<Longrightarrow> n \<le> length md \<Longrightarrow> n \<le> length d \<Longrightarrow>
     copy_data md d [i..<n] = Inr (take i md @ take (n - i) (drop i d) @ drop n md)"
proof (induction "n - i" arbitrary: i md)
  case 0
  then show ?case by simp
next
  case (Suc k)
  then have lt: "i < n" by simp
  have step: "[i..<n] = i # [Suc i..<n]"
    using lt by (simp add: upt_conv_Cons)
  have ih: "copy_data (md[i := d ! i]) d [Suc i..<n] =
      Inr (take (Suc i) (md[i := d ! i]) @ take (n - Suc i) (drop (Suc i) d) @ drop n (md[i := d ! i]))"
    using Suc.hyps(1) [of "Suc i" "md[i := d ! i]"] Suc.hyps(2) Suc.prems by simp
  have a: "take (Suc i) (md[i := d ! i]) = take i md @ [d ! i]"
    using lt Suc.prems by (simp add: take_Suc_conv_app_nth)
  have b: "drop n (md[i := d ! i]) = drop n md"
    using lt by simp
  have c1: "drop i d = d ! i # drop (Suc i) d"
    using lt Suc.prems by (simp add: Cons_nth_drop_Suc)
  have c2: "n - i = Suc (n - Suc i)"
    using lt by simp
  have c: "take (n - i) (drop i d) = d ! i # take (n - Suc i) (drop (Suc i) d)"
    by (simp only: c1 c2 take_Suc_Cons)
  show ?case
    using lt Suc.prems by (simp add: step ih a b c)
qed

lemma copy_data_prefix:
  "n \<le> length md \<Longrightarrow> n \<le> length d \<Longrightarrow> copy_data md d [0..<n] = Inr (take n d @ drop n md)"
  using copy_data_upt [of 0 n md d] by simp

text \<open>
  Claim C2. On a started session, for a payload of bytes, \<open>send\<close> hands exactly one frame
  to the transport and returns the transport's status for it, whatever the length of the
  payload: no exception and no status of its own. The frame has the given identifier,
  \<open>dlc = min 8 (length data)\<close>, and its data array holds the first eight bytes of the
  payload followed by zeros. So a payload longer than 8 bytes gives \<open>dlc = 8\<close> and the
  first 8 bytes, and a payload of at most 8 bytes gives \<open>dlc = length data\<close> and the
  payload unchanged. The \<open>Message\<close> type of the transport holds at least 8 data bytes.
\<close>

theorem send_truncates:
  assumes "is_started self" and "list_all (\<lambda>b. 0 \<le> b \<and> b < 256) data"
    and "8 \<le> max_len (api self)"
  shows "let msg = \<lparr>msg_id = mid,
                    flags = \<lparr>xtd = (if extended_id then 1 else 0),
                              rtr = (if remote_frame then 1 else 0), fdf = 0, brs = 0, esi = 0\<rparr>,
                    dlc = int (min 8 (length data)),
                    msg_data = take 8 data @ replicate (max_len (api self) - min 8 (length data)) 0\<rparr>
         in send self mid data extended_id remote_frame timeout =
              (Inr (on_write (api self) (calls (api self)) msg timeout),
               self\<lparr>api := (api self)\<lparr>calls := calls (api self) @ [Write msg timeout]\<rparr>\<rparr>) \<and>
            (8 < length data \<longrightarrow> dlc msg = 8 \<and> take 8 (msg_data msg) = take 8 data) \<and>
            (length data \<le> 8 \<longrightarrow>
               dlc msg = int (length data) \<and> take (length data) (msg_data msg) = data)"
proof (cases "8 < length data")
  case True
  have cp: "copy_data (replicate (max_len (api self)) 0) (take 8 data) [0..<8] =
      Inr (take 8 data @ replicate (max_len (api self) - 8) 0)"
    using True assms(3) copy_data_prefix [of 8 "replicate (max_len (api self)) 0" "take 8 data"]
    by simp
  show ?thesis
    using True assms(1,2)
    by (simp add: send_def py_bytes_def new_message_def api_write_def Let_def cp min_def)
next
  case False
  have cp: "copy_data (replicate (max_len (api self)) 0) data [0..<length data] =
      Inr (data @ replicate (max_len (api self) - length data) 0)"
    using False assms(3) copy_data_prefix [of "length data" "replicate (max_len (api self)) 0" data]
    by simp
  show ?thesis
    using False assms(1,2)
    by (simp add: send_def py_bytes_def new_message_def api_write_def Let_def cp min_def)
qed

theorem send_truncates_witness:
  "is_started demo_started \<and>
   list_all (\<lambda>b. 0 \<le> b \<and> b < 256) [1, 2, 3, 4, 5, 6, 7, 8, 9, 10 :: int] \<and>
   8 \<le> max_len (api demo_started) \<and>
   send demo_started 688 [1, 2, 3, 4, 5, 6, 7, 8, 9, 10] False False 0 =
     (Inr 0,
      demo_started\<lparr>api := (api demo_started)\<lparr>calls := calls (api demo_started) @
        [Write \<lparr>msg_id = 688, flags = \<lparr>xtd = 0, rtr = 0, fdf = 0, brs = 0, esi = 0\<rparr>,
                dlc = 8, msg_data = [1, 2, 3, 4, 5, 6, 7, 8] @ replicate 56 0\<rparr> 0]\<rparr>\<rparr>)"
proof -
  have h1: "is_started demo_started"
    by (simp add: demo_started_eq)
  have h2: "list_all (\<lambda>b. 0 \<le> b \<and> b < 256) [1, 2, 3, 4, 5, 6, 7, 8, 9, 10 :: int]"
    by simp
  have h3: "8 \<le> max_len (api demo_started)"
    by (simp add: demo_started_eq demo_api_def)
  show ?thesis
    using h1 h2 h3 send_truncates [OF h1 h2 h3, of 688 False False 0]
    by (simp add: Let_def demo_started_eq demo_api_def)
qed

section \<open>The lifecycle: start, close, open\<close>

lemma close_eq:
  "close self =
     (if is_initialized self
      then (on_exit (api self) (calls (api self) @ (if is_started self then [Reset] else [])),
            self\<lparr>api := (api self)\<lparr>calls := calls (api self) @
                    (if is_started self then [Reset] else []) @ [Exit]\<rparr>,
                  is_started := False, is_initialized := False, channel := - 1\<rparr>)
      else if is_started self
      then (on_reset (api self) (calls (api self)),
            self\<lparr>api := (api self)\<lparr>calls := calls (api self) @ [Reset]\<rparr>, is_started := False\<rparr>)
      else (0, self))"
  by (simp add: close_def api_reset_def api_exit_def CANERR_NOERROR_def Let_def)

text \<open>
  Claim C3, as stated, fails: \<open>start\<close> does not validate the selector. On the initialized
  demo session the selector \<open>1000\<close>, which is no preset, reaches the transport's start
  operation, whose status \<open>0\<close> is returned, and the session becomes started.
\<close>

theorem start_unknown_selector_reaches_transport:
  "1000 \<notin> recognized_presets \<and> is_initialized demo_initialized \<and>
   fst (start demo_initialized 1000) = 0 \<and>
   calls (api (snd (start demo_initialized 1000))) =
     [Version, Init 0 \<lparr>byte = 0, mon = 0\<rparr>, Start 1000] \<and>
   is_started (snd (start demo_initialized 1000))"
  by (simp add: recognized_presets_def demo_initialized_eq start_def api_start_def demo_api_def
      CANERR_NOERROR_def)

text \<open>
  Claim C3, amended. On an initialized session, \<open>start\<close> forwards every selector to the
  transport's start operation, exactly once and unvalidated, and returns the transport's
  status unchanged; the session becomes started exactly when that status is \<open>0\<close> (and
  stays started if it was), and stays initialized on its channel.
\<close>

theorem start_forwards_selector:
  "is_initialized self \<Longrightarrow>
     fst (start self b) = on_start (api self) (calls (api self)) b \<and>
     calls (api (snd (start self b))) = calls (api self) @ [Start b] \<and>
     is_started (snd (start self b)) =
       (is_started self \<or> on_start (api self) (calls (api self)) b = 0) \<and>
     is_initialized (snd (start self b)) \<and> channel (snd (start self b)) = channel self"
  by (simp add: start_def api_start_def CANERR_NOERROR_def Let_def)

theorem start_forwards_selector_witness:
  "is_initialized demo_initialized \<and>
   fst (start demo_initialized (- 3)) = 0 \<and>
   calls (api (snd (start demo_initialized (- 3)))) =
     [Version, Init 0 \<lparr>byte = 0, mon = 0\<rparr>, Start (- 3)] \<and>
   is_started (snd (start demo_initialized (- 3))) \<and>
   is_initialized (snd (start demo_initialized (- 3))) \<and>
   channel (snd (start demo_initialized (- 3))) = 0"
proof -
  have h: "is_initialized demo_initialized"
    by (simp add: demo_initialized_eq)
  show ?thesis
    using h start_forwards_selector [OF h, of "- 3"]
    by (simp add: demo_initialized_eq demo_api_def)
qed

text \<open>
  Claim C4, as stated, fails in its last part: \<open>close\<close> keeps no record of the first
  step's status. On the started demo session the stop step (reset) fails with \<open>-1\<close>, the
  release step (exit) succeeds, both are executed in that order, and \<open>close\<close> returns
  \<open>0\<close>, not the last non-zero status \<open>-1\<close>.
\<close>

theorem close_forgets_failed_stop:
  "is_started demo_started \<and> is_initialized demo_started \<and>
   on_reset (api demo_started) (calls (api demo_started)) = - 1 \<and>
   on_exit (api demo_started) (calls (api demo_started) @ [Reset]) = 0 \<and>
   calls (api (snd (close demo_started))) = calls (api demo_started) @ [Reset, Exit] \<and>
   fst (close demo_started) = 0"
  by (simp add: close_eq demo_started_eq demo_api_def)

text \<open>
  Claim C4, amended. For every session, \<open>close\<close> executes the stop step (transport reset,
  only when started) and then the release step (transport exit, only when initialized),
  the release step whatever the stop step returned, and returns the status of the last
  step it executed: that of exit when the session was initialized, else that of reset when
  it was started, else success. Afterwards the session is neither started nor
  initialized, and its channel is the unbound sentinel if it was initialized.
\<close>

theorem close_steps_and_status:
  "calls (api (snd (close self))) =
     calls (api self) @ (if is_started self then [Reset] else []) @
       (if is_initialized self then [Exit] else []) \<and>
   fst (close self) =
     (if is_initialized self
      then on_exit (api self) (calls (api self) @ (if is_started self then [Reset] else []))
      else if is_started self then on_reset (api self) (calls (api self)) else 0) \<and>
   \<not> is_started (snd (close self)) \<and> \<not> is_initialized (snd (close self)) \<and>
   channel (snd (close self)) = (if is_initialized self then - 1 else channel self)"
  by (simp add: close_eq)

text \<open>
  Claim C5. For every session, after one \<open>close\<close> the session is closed (neither
  initialized nor started; the channel is the sentinel if a channel was bound), and a
  second \<open>close\<close> right after it returns success and leaves the session and the record
  of transport calls as they are. Over both calls the transport's exit is invoked once if
  the session was initialized and not at all otherwise. As the second call always
  succeeds, both succeed when the first does.
\<close>

theorem close_idempotent:
  "\<not> is_initialized (snd (close self)) \<and> \<not> is_started (snd (close self)) \<and>
   channel (snd (close self)) = (if is_initialized self then - 1 else channel self) \<and>
   close (snd (close self)) = (0, snd (close self)) \<and>
   calls (api (snd (close (snd (close self))))) = calls (api (snd (close self))) \<and>
   length (filter (\<lambda>c. c = Exit) (calls (api (snd (close (snd (close self))))))) =
     length (filter (\<lambda>c. c = Exit) (calls (api self))) + (if is_initialized self then 1 else 0)"
  by (simp add: close_eq)

text \<open>
  Claim C6. On a session that is not closed, that is, initialized (started or not),
  \<open>open\<close> first performs a full close of the prior binding and then binds the new
  channel: it does what \<open>open\<close> does on the session left by \<open>close\<close>. The transport sees
  reset (if the session was started), then exit, and only then the initialize call for
  the new channel; these are all the calls \<open>open\<close> makes, so the release precedes the new
  binding. \<open>open\<close> returns the status of that initialize call. Afterwards the session is
  not started; it is initialized on the new channel if the status is success, and closed
  with the unbound sentinel otherwise: nothing of the prior binding is left.
\<close>

theorem open_closes_prior_binding:
  "is_initialized self \<Longrightarrow>
     open_can self chan monitor_mode = open_can (snd (close self)) chan monitor_mode \<and>
     calls (api (snd (open_can self chan monitor_mode))) =
       calls (api self) @ (if is_started self then [Reset] else []) @ [Exit] @
         [Init chan \<lparr>byte = CANMODE_DEFAULT, mon = (if monitor_mode then 1 else 0)\<rparr>] \<and>
     fst (open_can self chan monitor_mode) =
       on_init (api self) (calls (api self) @ (if is_started self then [Reset] else []) @ [Exit])
         chan \<lparr>byte = CANMODE_DEFAULT, mon = (if monitor_mode then 1 else 0)\<rparr> \<and>
     snd (open_can self chan monitor_mode) =
       self\<lparr>api := (api self)\<lparr>calls := calls (api self) @
                 (if is_started self then [Reset] else []) @ [Exit] @
                 [Init chan \<lparr>byte = CANMODE_DEFAULT, mon = (if monitor_mode then 1 else 0)\<rparr>]\<rparr>,
            is_started := False,
            is_initialized := (fst (open_can self chan monitor_mode) = 0),
            channel := (if fst (open_can self chan monitor_mode) = 0 then chan else - 1)\<rparr> \<and>
     \<not> is_started (snd (open_can self chan monitor_mode)) \<and>
     is_initialized (snd (open_can self chan monitor_mode)) =
       (fst (open_can self chan monitor_mode) = 0) \<and>
     channel (snd (open_can self chan monitor_mode)) =
       (if fst (open_can self chan monitor_mode) = 0 then chan else - 1)"
proof -
  assume i: "is_initialized self"
  have c: "\<not> is_initialized (snd (close self))"
    by (simp add: close_eq)
  have e: "open_can self chan monitor_mode = open_can (snd (close self)) chan monitor_mode"
    using i c by (simp add: open_can_def)
  have r: "open_can (snd (close self)) chan monitor_mode =
      (let st = on_init (api self)
                  (calls (api self) @ (if is_started self then [Reset] else []) @ [Exit])
                  chan \<lparr>byte = CANMODE_DEFAULT, mon = (if monitor_mode then 1 else 0)\<rparr>
       in (st,
           self\<lparr>api := (api self)\<lparr>calls := calls (api self) @
                     (if is_started self then [Reset] else []) @ [Exit] @
                     [Init chan \<lparr>byte = CANMODE_DEFAULT, mon = (if monitor_mode then 1 else 0)\<rparr>]\<rparr>,
                is_started := False, is_initialized := (st = 0),
                channel := (if st = 0 then chan else - 1)\<rparr>))"
    using i by (simp add: open_can_def close_eq api_init_def CANERR_NOERROR_def Let_def)
  show ?thesis
    by (simp add: e r Let_def)
qed

theorem open_closes_prior_binding_witness:
  "is_initialized demo_started \<and> is_started demo_started \<and> channel demo_started = 0 \<and>
   open_can demo_started 1 True = open_can (snd (close demo_started)) 1 True \<and>
   fst (open_can demo_started 1 True) = 0 \<and>
   calls (api (snd (open_can demo_started 1 True))) =
     [Version, Init 0 \<lparr>byte = 0, mon = 0\<rparr>, Start (- 2), Reset, Exit,
      Init 1 \<lparr>byte = 0, mon = 1\<rparr>] \<and>
   \<not> is_started (snd (open_can demo_started 1 True)) \<and>
   is_initialized (snd (open_can demo_started 1 True)) \<and>
   channel (snd (open_can demo_started 1 True)) = 1"
proof -
  have h: "is_initialized demo_started"
    by (simp add: demo_started_eq)
  have s: "is_started demo_started" "channel demo_started = 0"
    by (simp_all add: demo_started_eq)
  have l: "calls (api demo_started) = [Version, Init 0 \<lparr>byte = 0, mon = 0\<rparr>, Start (- 2)]"
    by (simp add: demo_started_eq)
  have o: "on_init (api demo_started) hist c m = 0" for hist c m
    by (simp add: demo_started_eq demo_api_def)
  note t = open_closes_prior_binding [OF h, of 1 True]
  note t1 = t [THEN conjunct1]
  note t2 = t [THEN conjunct2, THEN conjunct1]
  note t3 = t [THEN conjunct2, THEN conjunct2, THEN conjunct1]
  note t5 = t [THEN conjunct2, THEN conjunct2, THEN conjunct2, THEN conjunct2]
  have st: "fst (open_can demo_started 1 True) = 0"
    using t3 by (simp add: o)
  have rest: "calls (api (snd (open_can demo_started 1 True))) =
      [Version, Init 0 \<lparr>byte = 0, mon = 0\<rparr>, Start (- 2), Reset, Exit,
       Init 1 \<lparr>byte = 0, mon = 1\<rparr>] \<and>
    \<not> is_started (snd (open_can demo_started 1 True)) \<and>
    is_initialized (snd (open_can demo_started 1 True)) \<and>
    channel (snd (open_can demo_started 1 True)) = 1"
    using t2 t5 s by (simp add: st l CANMODE_DEFAULT_def)
  show ?thesis
    using h s t1 st rest by blast
qed

section \<open>Channel scan\<close>

lemma scan_loop_append:
  "scan_loop self acc (xs @ ys) = (case scan_loop self acc xs of (av, s) \<Rightarrow> scan_loop s av ys)"
  by (induction xs arbitrary: self acc) (simp_all add: Let_def split: prod.splits)

lemma probe_calls_int: "probe_calls (int n) = map (\<lambda>c. Test c default_mode) (map int [0..<n])"
  by (simp add: probe_calls_def py_range_def)

lemma scan_loop_upto:
  "scan_loop self [] (map int [0..<n]) =
     (filter (\<lambda>c. probe_state self c = 0) (map int [0..<n]),
      self\<lparr>api := (api self)\<lparr>calls := calls (api self) @ probe_calls (int n)\<rparr>\<rparr>)"
proof (induction n)
  case 0
  have "probe_calls (int 0) = []"
    by (simp only: probe_calls_int) simp
  then show ?case by simp
next
  case (Suc n)
  have p: "probe_calls (int (Suc n)) = probe_calls (int n) @ [Test (int n) default_mode]"
    by (simp only: probe_calls_int) simp
  have q: "probe_state self (int n) =
      snd (on_test (api self) (calls (api self) @ probe_calls (int n)) (int n) default_mode)"
    by (simp add: probe_state_def)
  show ?case
    by (simp add: scan_loop_append Suc api_test_def p q default_mode_def [symmetric]
        Let_def split: prod.splits del: of_nat_Suc)
qed

text \<open>
  Claim C7. For every session and every \<open>max_channels\<close> (a negative one scans nothing),
  \<open>scan_channels\<close> probes the channels \<open>0, \<dots>, max_channels - 1\<close> in this order with the
  default mode and returns exactly those whose probe reported state code \<open>0\<close>, in
  ascending order. The result is a list, empty exactly when no probed channel reported
  state \<open>0\<close>; nothing of the session changes but the transport's record of calls.
\<close>

theorem scan_channels_spec:
  "fst (scan_channels self max_channels) =
     filter (\<lambda>c. probe_state self c = 0) (py_range max_channels) \<and>
   snd (scan_channels self max_channels) =
     self\<lparr>api := (api self)\<lparr>calls := calls (api self) @ probe_calls max_channels\<rparr>\<rparr> \<and>
   sorted_wrt (<) (fst (scan_channels self max_channels)) \<and>
   (fst (scan_channels self max_channels) = []) =
     list_all (\<lambda>c. probe_state self c \<noteq> 0) (py_range max_channels) \<and>
   channel (snd (scan_channels self max_channels)) = channel self \<and>
   is_initialized (snd (scan_channels self max_channels)) = is_initialized self \<and>
   is_started (snd (scan_channels self max_channels)) = is_started self"
proof -
  have e: "scan_channels self max_channels =
      (filter (\<lambda>c. probe_state self c = 0) (py_range max_channels),
       self\<lparr>api := (api self)\<lparr>calls := calls (api self) @ probe_calls max_channels\<rparr>\<rparr>)"
    using scan_loop_upto [of self "nat max_channels"]
    by (simp add: scan_channels_def py_range_def probe_calls_def)
  have s: "sorted_wrt (<) (py_range max_channels)"
    by (simp add: py_range_def sorted_wrt_map)
  have f: "sorted_wrt (<) (filter (\<lambda>c. probe_state self c = 0) (py_range max_channels))"
    using s by (rule sorted_wrt_filter)
  have n: "(filter (\<lambda>c. probe_state self c = 0) (py_range max_channels) = []) =
      list_all (\<lambda>c. probe_state self c \<noteq> 0) (py_range max_channels)"
    by (simp add: filter_empty_conv list_all_iff)
  show ?thesis
    by (simp add: e f n)
qed

theorem scan_channels_spec_witness:
  "fst (scan_channels demo_closed 8) = [2, 5] \<and>
   calls (api (snd (scan_channels demo_closed 8))) =
     Version # map (\<lambda>c. Test c \<lparr>byte = 0, mon = 0\<rparr>) [0, 1, 2, 3, 4, 5, 6, 7] \<and>
   \<not> is_initialized (snd (scan_channels demo_closed 8))"
  using scan_channels_spec [of demo_closed 8]
  by (simp add: probe_state_def probe_calls_def py_range_def default_mode_def demo_closed_eq
      demo_api_def CANMODE_DEFAULT_def upt_rec)

section \<open>The monitor loop\<close>

lemma after_polls_0: "after_polls self 0 = self"
  by (simp add: after_polls_def)

lemma frames_0: "frames self 0 = []"
  by (simp add: frames_def)

lemma frames_Suc:
  "frames self (Suc k) =
     frames self k @ (if fst (poll self k) = CANERR_NOERROR then [snd (poll self k)] else [])"
  by (simp add: frames_def)

lemma read_after_polls:
  "api_read (api (after_polls self k)) 100 = (poll self k, api (after_polls self (Suc k)))"
  by (simp add: api_read_def after_polls_def poll_def replicate_append_same)

lemma after_polls_api: "(after_polls self k)\<lparr>api := api (after_polls self (Suc k))\<rparr> = after_polls self (Suc k)"
  by (simp add: after_polls_def)

lemma monitor_loop_continues:
  assumes "keeps_polling time_time duration callback self k"
  shows "monitor_loop time_time (time_time 0) duration callback (Suc k)
           (int (length (frames self k))) (frames self k) (after_polls self k) =
         monitor_loop time_time (time_time 0) duration callback (Suc (Suc k))
           (int (length (frames self (Suc k)))) (frames self (Suc k)) (after_polls self (Suc k))"
proof -
  obtain r m where p: "poll self k = (r, m)"
    by (cases "poll self k")
  have t: "time_time (Suc k) - time_time 0 < real_of_int duration"
    using assms by (simp add: keeps_polling_def in_time_def)
  have c: "r = CANERR_RX_EMPTY \<or>
      r = CANERR_NOERROR \<and> (case callback of None \<Rightarrow> True | Some cb \<Rightarrow> cb (frames self k @ [m]))"
    using assms p by (auto simp add: keeps_polling_def frames_Suc split: option.splits)
  show ?thesis
    apply (subst monitor_loop.simps)
    using t c
    by (auto simp add: read_after_polls after_polls_api p frames_Suc CANERR_NOERROR_def
          CANERR_RX_EMPTY_def add.commute split: option.splits)
qed


lemma monitor_loop_prefix:
  "(\<forall>j<k. keeps_polling time_time duration callback self j) \<Longrightarrow>
     monitor_loop time_time (time_time 0) duration callback 1 0 [] self =
     monitor_loop time_time (time_time 0) duration callback (Suc k)
       (int (length (frames self k))) (frames self k) (after_polls self k)"
proof (induction k)
  case 0
  show ?case by (simp add: frames_0 after_polls_0)
next
  case (Suc k)
  have "monitor_loop time_time (time_time 0) duration callback 1 0 [] self =
      monitor_loop time_time (time_time 0) duration callback (Suc k)
        (int (length (frames self k))) (frames self k) (after_polls self k)"
    using Suc by simp
  also have "\<dots> = monitor_loop time_time (time_time 0) duration callback (Suc (Suc k))
      (int (length (frames self (Suc k)))) (frames self (Suc k)) (after_polls self (Suc k))"
    using Suc.prems by (intro monitor_loop_continues) simp
  finally show ?case .
qed

lemma monitor_loop_callback_stops:
  assumes "in_time time_time duration k" and "fst (poll self k) = CANERR_NOERROR"
    and "\<not> cb (frames self (Suc k))"
  shows "monitor_loop time_time (time_time 0) duration (Some cb) (Suc k)
           (int (length (frames self k))) (frames self k) (after_polls self k) =
         Some (int (length (frames self (Suc k))), after_polls self (Suc k))"
proof -
  obtain r m where p: "poll self k = (r, m)"
    by (cases "poll self k")
  show ?thesis
    apply (subst monitor_loop.simps)
    using assms p
    by (simp add: read_after_polls after_polls_api frames_Suc in_time_def add.commute)
qed

lemma monitor_loop_error_stops:
  assumes "in_time time_time duration k" and "fst (poll self k) \<noteq> CANERR_NOERROR"
    and "fst (poll self k) \<noteq> CANERR_RX_EMPTY"
  shows "monitor_loop time_time (time_time 0) duration callback (Suc k)
           (int (length (frames self k))) (frames self k) (after_polls self k) =
         Some (int (length (frames self k)), after_polls self (Suc k))"
proof -
  obtain r m where p: "poll self k = (r, m)"
    by (cases "poll self k")
  show ?thesis
    apply (subst monitor_loop.simps)
    using assms p
    by (simp add: read_after_polls after_polls_api in_time_def)
qed

lemma length_frames:
  "length (frames self k) = length (filter (\<lambda>j. fst (poll self j) = CANERR_NOERROR) [0..<k])"
  by (simp add: frames_def filter_map comp_def)

lemma reads_in_replicate: "reads_in (h @ replicate j (Read t)) = reads_in h + j"
  by (simp add: reads_in_def)

lemma demo_poll:
  "poll demo_started j =
     (if j = 1 \<or> j = 3 then (0, Some demo_frame)
      else if j = 4 then (- 1, None) else (- 30, None))"
  by (simp add: poll_def demo_started_eq demo_api_def reads_in_replicate) (simp add: reads_in_def)

lemma demo_in_time: "j < 29 \<Longrightarrow> in_time demo_clock 30 j"
  by (simp add: in_time_def demo_clock_def)

lemma demo_frames:
  "frames demo_started (Suc 0) = []"
  "frames demo_started (Suc (Suc 0)) = [Some demo_frame]"
  "frames demo_started (Suc (Suc (Suc 0))) = [Some demo_frame]"
  "frames demo_started (Suc (Suc (Suc (Suc 0)))) = [Some demo_frame, Some demo_frame]"
  by (simp_all add: frames_def demo_poll CANERR_NOERROR_def)

text \<open>
  Claim C8. On a started session, let the polls \<open>0, \<dots>, k - 1\<close> of \<open>monitor\<close> be made
  in time and not end the loop, and let poll \<open>k\<close> be made in time, deliver a frame, and the
  callback answer false for it. That frame is the \<open>n\<close>-th delivered one, where \<open>n\<close> is the
  number of frames of the polls \<open>0, \<dots>, k\<close>. Then \<open>monitor\<close> returns, with count \<open>n\<close>, and
  the transport has seen exactly the \<open>k + 1\<close> reads up to that frame and none after it,
  whatever the duration and the later readings of the clock. In particular, when no
  frame came before, the count is \<open>1\<close>.
\<close>

theorem monitor_stops_on_callback:
  assumes "is_started self"
    and "\<forall>j<k. keeps_polling time_time duration (Some cb) self j"
    and "in_time time_time duration k"
    and "fst (poll self k) = CANERR_NOERROR"
    and "\<not> cb (frames self (Suc k))"
  shows "monitor time_time self duration (Some cb) =
           Some (int (length (frames self (Suc k))), after_polls self (Suc k)) \<and>
         length (frames self (Suc k)) = Suc (length (frames self k)) \<and>
         last (frames self (Suc k)) = snd (poll self k) \<and>
         (frames self k = [] \<longrightarrow>
            monitor time_time self duration (Some cb) = Some (1, after_polls self (Suc k)))"
proof -
  have m: "monitor time_time self duration (Some cb) =
      Some (int (length (frames self (Suc k))), after_polls self (Suc k))"
    using assms(1) monitor_loop_prefix [OF assms(2)] monitor_loop_callback_stops [of time_time duration k self cb, OF assms(3-5)]
    by (simp add: monitor_def)
  have l: "length (frames self (Suc k)) = Suc (length (frames self k))"
    using assms(4) by (simp add: frames_Suc)
  have f: "last (frames self (Suc k)) = snd (poll self k)"
    using assms(4) by (simp add: frames_Suc)
  show ?thesis
    using m l f by (simp add: frames_Suc)
qed

theorem monitor_stops_on_callback_witness:
  "is_started demo_started \<and> in_time demo_clock 30 3 \<and>
   fst (poll demo_started 3) = CANERR_NOERROR \<and>
   \<not> stop_at_second (frames demo_started (Suc 3)) \<and>
   keeps_polling demo_clock 30 (Some stop_at_second) demo_started 0 \<and>
   keeps_polling demo_clock 30 (Some stop_at_second) demo_started 1 \<and>
   keeps_polling demo_clock 30 (Some stop_at_second) demo_started 2 \<and>
   monitor demo_clock demo_started 30 (Some stop_at_second) =
     Some (2, after_polls demo_started 4)"
proof -
  have h1: "is_started demo_started"
    by (simp add: demo_started_eq)
  have k0: "keeps_polling demo_clock 30 (Some stop_at_second) demo_started 0"
    by (simp add: keeps_polling_def demo_in_time demo_poll CANERR_RX_EMPTY_def)
  have k1: "keeps_polling demo_clock 30 (Some stop_at_second) demo_started 1"
    by (simp add: keeps_polling_def demo_in_time demo_poll CANERR_NOERROR_def
        CANERR_RX_EMPTY_def demo_frames stop_at_second_def)
  have k2: "keeps_polling demo_clock 30 (Some stop_at_second) demo_started 2"
    by (simp add: keeps_polling_def demo_in_time demo_poll CANERR_RX_EMPTY_def)
  have h2: "\<forall>j<3. keeps_polling demo_clock 30 (Some stop_at_second) demo_started j"
  proof (intro allI impI)
    fix j :: nat
    assume "j < 3"
    then have "j = 0 \<or> j = 1 \<or> j = 2"
      by linarith
    then show "keeps_polling demo_clock 30 (Some stop_at_second) demo_started j"
      using k0 k1 k2 by auto
  qed
  have h3: "in_time demo_clock 30 3"
    by (simp add: demo_in_time)
  have h4: "fst (poll demo_started 3) = CANERR_NOERROR"
    by (simp add: demo_poll CANERR_NOERROR_def)
  have h5: "\<not> stop_at_second (frames demo_started (Suc 3))"
    by (simp add: eval_nat_numeral demo_frames stop_at_second_def)
  show ?thesis
    using h1 h3 h4 h5 k0 k1 k2 monitor_stops_on_callback [OF h1 h2 h3 h4 h5]
    by (simp add: eval_nat_numeral demo_frames)
qed

text \<open>
  Claim C9. On a started session, let the polls \<open>0, \<dots>, k - 1\<close> be made in time and each
  find the queue empty (\<open>CANERR_RX_EMPTY\<close>) or deliver a frame the callback accepts, and
  let poll \<open>k\<close> be made in time and return a status that is neither success nor
  \<open>CANERR_RX_EMPTY\<close>. Then \<open>monitor\<close> returns right after that read (the transport has
  seen \<open>k + 1\<close> reads), and what it returns is the number of polls before \<open>k\<close> whose status
  was success: the empty polls went on without being counted. The count is not negative,
  so it is never the (negative) error status.
\<close>

theorem monitor_read_statuses:
  assumes "is_started self"
    and "\<forall>j<k. keeps_polling time_time duration callback self j"
    and "in_time time_time duration k"
    and "fst (poll self k) \<noteq> CANERR_NOERROR"
    and "fst (poll self k) \<noteq> CANERR_RX_EMPTY"
  shows "monitor time_time self duration callback =
           Some (int (length (filter (\<lambda>j. fst (poll self j) = CANERR_NOERROR) [0..<k])),
                 after_polls self (Suc k)) \<and>
         (0::int) \<le> int (length (filter (\<lambda>j. fst (poll self j) = CANERR_NOERROR) [0..<k])) \<and>
         (fst (poll self k) < 0 \<longrightarrow>
            int (length (filter (\<lambda>j. fst (poll self j) = CANERR_NOERROR) [0..<k])) \<noteq>
              fst (poll self k))"
proof -
  have m: "monitor time_time self duration callback =
      Some (int (length (frames self k)), after_polls self (Suc k))"
    using assms(1) monitor_loop_prefix [OF assms(2)] monitor_loop_error_stops [OF assms(3-5)]
    by (simp add: monitor_def)
  show ?thesis
    using m by (simp add: length_frames)
qed

theorem monitor_read_statuses_witness:
  "is_started demo_started \<and> in_time demo_clock 30 4 \<and>
   fst (poll demo_started 0) = CANERR_RX_EMPTY \<and>
   fst (poll demo_started 4) = - 1 \<and>
   keeps_polling demo_clock 30 None demo_started 0 \<and>
   keeps_polling demo_clock 30 None demo_started 1 \<and>
   keeps_polling demo_clock 30 None demo_started 2 \<and>
   keeps_polling demo_clock 30 None demo_started 3 \<and>
   monitor demo_clock demo_started 30 None = Some (2, after_polls demo_started 5)"
proof -
  have h1: "is_started demo_started"
    by (simp add: demo_started_eq)
  have k0: "keeps_polling demo_clock 30 None demo_started 0"
    by (simp add: keeps_polling_def demo_in_time demo_poll CANERR_RX_EMPTY_def)
  have k1: "keeps_polling demo_clock 30 None demo_started 1"
    by (simp add: keeps_polling_def demo_in_time demo_poll CANERR_NOERROR_def)
  have k2: "keeps_polling demo_clock 30 None demo_started 2"
    by (simp add: keeps_polling_def demo_in_time demo_poll CANERR_RX_EMPTY_def)
  have k3: "keeps_polling demo_clock 30 None demo_started 3"
    by (simp add: keeps_polling_def demo_in_time demo_poll CANERR_NOERROR_def)
  have h2: "\<forall>j<4. keeps_polling demo_clock 30 None demo_started j"
  proof (intro allI impI)
    fix j :: nat
    assume "j < 4"
    then have "j = 0 \<or> j = 1 \<or> j = 2 \<or> j = 3"
      by linarith
    then show "keeps_polling demo_clock 30 None demo_started j"
      using k0 k1 k2 k3 by auto
  qed
  have h3: "in_time demo_clock 30 4"
    by (simp add: demo_in_time)
  have h4: "fst (poll demo_started 4) \<noteq> CANERR_NOERROR"
    by (simp add: demo_poll CANERR_NOERROR_def)
  have h5: "fst (poll demo_started 4) \<noteq> CANERR_RX_EMPTY"
    by (simp add: demo_poll CANERR_RX_EMPTY_def)
  have p0: "fst (poll demo_started 0) = CANERR_RX_EMPTY"
    by (simp add: demo_poll CANERR_RX_EMPTY_def)
  have p4: "fst (poll demo_started 4) = - 1"
    by (simp add: demo_poll)
  have c: "length (filter (\<lambda>j. fst (poll demo_started j) = CANERR_NOERROR) [0..<4]) = 2"
    by (simp add: demo_poll CANERR_NOERROR_def upt_rec)
  show ?thesis
    using h1 h3 p0 p4 k0 k1 k2 k3 monitor_read_statuses [OF h1 h2 h3 h4 h5]
    by (simp add: c)
qed

section \<open>The invariant of the session fields\<close>

lemma monitor_loop_fields:
  assumes "monitor_loop time_time start_time duration callback i msg_count seen self = Some y"
  shows "channel (snd y) = channel self \<and> is_initialized (snd y) = is_initialized self \<and>
     is_started (snd y) = is_started self"
  using assms
proof (rule monitor_loop.raw_induct [rotated,
      where P = "\<lambda>_ _ _ _ _ _ _ s r. channel (snd r) = channel s \<and>
        is_initialized (snd r) = is_initialized s \<and> is_started (snd r) = is_started s"])
  fix f :: "(nat \<Rightarrow> real) \<Rightarrow> real \<Rightarrow> int \<Rightarrow> (message option list \<Rightarrow> bool) option \<Rightarrow>
    nat \<Rightarrow> int \<Rightarrow> message option list \<Rightarrow> KvaserCAN \<Rightarrow> (int \<times> KvaserCAN) option"
  fix tt st d cb j c sn s r
  assume ih: "\<And>tt st d cb j c sn s r. f tt st d cb j c sn s = Some r \<Longrightarrow>
      channel (snd r) = channel s \<and> is_initialized (snd r) = is_initialized s \<and>
      is_started (snd r) = is_started s"
  assume body: "(if tt j - st < real_of_int d
      then case api_read (api s) 100 of
           ((result, msg), a) \<Rightarrow>
             if result = CANERR_NOERROR
             then case cb of
                  None \<Rightarrow> f tt st d cb (Suc j) (c + 1) (sn @ [msg]) (s\<lparr>api := a\<rparr>)
                  | Some g \<Rightarrow>
                      if \<not> g (sn @ [msg]) then Some (c + 1, s\<lparr>api := a\<rparr>)
                      else f tt st d cb (Suc j) (c + 1) (sn @ [msg]) (s\<lparr>api := a\<rparr>)
             else if result \<noteq> CANERR_RX_EMPTY then Some (c, s\<lparr>api := a\<rparr>)
                  else f tt st d cb (Suc j) c sn (s\<lparr>api := a\<rparr>)
      else Some (c, s)) = Some r"
  show "channel (snd r) = channel s \<and> is_initialized (snd r) = is_initialized s \<and>
      is_started (snd r) = is_started s"
    using body
    by (auto split: if_splits prod.splits option.splits dest!: ih)
qed

lemma consistent_init: "consistent (init a)"
  by (simp add: consistent_def init_def api_version_def)

lemma consistent_close: "consistent self \<Longrightarrow> consistent (snd (close self))"
  by (simp add: consistent_def close_eq)

lemma consistent_open: "consistent self \<Longrightarrow> consistent (snd (open_can self chan monitor_mode))"
  by (auto simp add: consistent_def open_can_def close_eq api_init_def Let_def)

lemma consistent_start: "consistent self \<Longrightarrow> consistent (snd (start self b))"
  by (auto simp add: consistent_def start_def api_start_def Let_def)

lemma consistent_send: "consistent self \<Longrightarrow> consistent (snd (send self mid data x r t))"
  by (simp add: consistent_def send_def api_write_def Let_def split: sum.splits prod.splits)

lemma consistent_receive: "consistent self \<Longrightarrow> consistent (snd (receive self t))"
  by (simp add: consistent_def receive_def api_read_def Let_def)

lemma scan_loop_fields:
  "channel (snd (scan_loop self acc cs)) = channel self \<and>
   is_initialized (snd (scan_loop self acc cs)) = is_initialized self \<and>
   is_started (snd (scan_loop self acc cs)) = is_started self"
  by (induction cs arbitrary: self acc) (simp_all add: Let_def split: prod.splits)

lemma consistent_scan: "consistent self \<Longrightarrow> consistent (snd (scan_channels self n))"
  by (simp add: consistent_def scan_channels_def scan_loop_fields)

lemma consistent_monitor:
  assumes "consistent self" and "monitor time_time self duration callback = Some (n, self')"
  shows "consistent self'"
proof (cases "is_started self")
  case False
  then show ?thesis using assms by (simp add: monitor_def)
next
  case True
  then have "monitor_loop time_time (time_time 0) duration callback 1 0 [] self = Some (n, self')"
    using assms(2) by (simp add: monitor_def)
  from monitor_loop_fields [OF this] show ?thesis
    using assms(1) by (simp add: consistent_def)
qed

text \<open>
  Claim C10. In every session reachable from construction by calls of \<open>open\<close>, \<open>start\<close>,
  \<open>close\<close>, \<open>send\<close>, \<open>receive\<close>, \<open>scan_channels\<close> and \<open>monitor\<close>, whatever the
  transport answers, a started session is initialized and a session that is not
  initialized has the channel \<open>-1\<close>: the fields encode exactly one of \<open>Closed\<close>,
  \<open>Initialized\<close> and \<open>Started\<close>.
\<close>

theorem reachable_fields_consistent:
  "reachable self \<Longrightarrow>
     (is_started self \<longrightarrow> is_initialized self) \<and>
     (\<not> is_initialized self \<longrightarrow> channel self = - 1) \<and>
     (\<not> is_initialized self \<and> \<not> is_started self \<and> channel self = - 1 \<or>
      is_initialized self \<and> \<not> is_started self \<or>
      is_initialized self \<and> is_started self)"
proof -
  assume "reachable self"
  then have "consistent self"
  proof (induction rule: reachable.induct)
    case (reach_init a)
    show ?case by (rule consistent_init)
  next
    case (reach_open self chan monitor_mode)
    then show ?case by (simp add: consistent_open)
  next
    case (reach_start self bitrate_index)
    then show ?case by (simp add: consistent_start)
  next
    case (reach_close self)
    then show ?case by (simp add: consistent_close)
  next
    case (reach_send self mid data extended_id remote_frame timeout)
    then show ?case by (simp add: consistent_send)
  next
    case (reach_receive self timeout)
    then show ?case by (simp add: consistent_receive)
  next
    case (reach_scan self max_channels)
    then show ?case by (simp add: consistent_scan)
  next
    case (reach_monitor self time_time duration callback n self')
    then show ?case by (blast intro: consistent_monitor)
  qed
  then show ?thesis
    by (auto simp add: consistent_def)
qed

theorem reachable_fields_consistent_witness:
  "reachable demo_started \<and> is_started demo_started \<and> is_initialized demo_started \<and>
   reachable (snd (close demo_started)) \<and> \<not> is_initialized (snd (close demo_started)) \<and>
   channel (snd (close demo_started)) = - 1"
proof -
  have r: "reachable demo_started"
    unfolding demo_started_def demo_initialized_def demo_closed_def
    by (intro reachable.intros)
  have r': "reachable (snd (close demo_started))"
    using r by (rule reach_close)
  have s: "is_started demo_started"
    by (simp add: demo_started_eq)
  have c: "\<not> is_initialized (snd (close demo_started))"
    by (simp add: close_eq)
  show ?thesis
    using r r' s c reachable_fields_consistent [OF r] reachable_fields_consistent [OF r']
    by simp
qed

end
